theory Spec2Isabelle
  imports Main "HOL-Library.Word"
begin

section \<open>Python values shared by both source files\<close>

text \<open>
  Exception objects raised by code outside the repository (the protocol-server entry
  point, the server's stop coroutine). What the handlers of the source look at is
  whether the object is an instance of \<^verbatim>\<open>Exception\<close>; the string is \<^verbatim>\<open>str(e)\<close>.
\<close>

datatype exc =
    Exception string
  | BaseException_only string

text \<open>
  Errors raised by the modelled functions themselves, and \<open>Propagated\<close> for an
  external exception object that leaves a modelled function uncaught.
\<close>

datatype error =
    AssertionError
  | IndexError
  | KeyError
  | UnicodeDecodeError
  | Propagated exc

section \<open>tests/golem/envs/localhost.py: the Task-API handler stub\<close>

text \<open>
  \<^verbatim>\<open>LocalhostPrerequisites\<close> is a dataclass of four fields. \<^verbatim>\<open>Subtask\<close> comes from
  \<^verbatim>\<open>golem_task_api.structs\<close> and the benchmark result is a Python float; neither is
  inspected by the code, so both are type parameters. Subtask ids and results are
  Python strings, a path is its string.
\<close>

record ('st, 'f) LocalhostPrerequisites =
  compute_results :: "string \<rightharpoonup> string"
  benchmark_result :: 'f
  subtasks :: "'st list"
  verify_results :: "string \<rightharpoonup> (bool \<times> string option)"

text \<open>
  \<^verbatim>\<open>LocalhostAppHandler.__init__\<close> stores the four containers of the prerequisites in
  the attributes \<^verbatim>\<open>_compute_results\<close>, \<^verbatim>\<open>_benchmark_result\<close>, \<^verbatim>\<open>_subtasks\<close>,
  \<^verbatim>\<open>_verify_results\<close>.
\<close>

record ('st, 'f) LocalhostAppHandler =
  h_compute_results :: "string \<rightharpoonup> string"
  h_benchmark_result :: 'f
  h_subtasks :: "'st list"
  h_verify_results :: "string \<rightharpoonup> (bool \<times> string option)"

definition LocalhostAppHandler_init ::
  "('st, 'f) LocalhostPrerequisites \<Rightarrow> ('st, 'f) LocalhostAppHandler" where
  "LocalhostAppHandler_init prereq =
     \<lparr> h_compute_results = compute_results prereq,
       h_benchmark_result = benchmark_result prereq,
       h_subtasks = subtasks prereq,
       h_verify_results = verify_results prereq \<rparr>"

text \<open>
  Every verb is a coroutine; the model gives what awaiting it produces: the value it
  returns or the error it raises, and the handler afterwards.
\<close>

definition create_task ::
  "('st, 'f) LocalhostAppHandler \<Rightarrow> string \<Rightarrow> int \<Rightarrow> 'p
     \<Rightarrow> (error + unit) \<times> ('st, 'f) LocalhostAppHandler" where
  "create_task h task_work_dir max_subtasks_count task_params = (Inr (), h)"

text \<open>\<^verbatim>\<open>return self._subtasks.pop(0)\<close>: \<^verbatim>\<open>list.pop\<close> raises IndexError on an empty list.\<close>

definition next_subtask ::
  "('st, 'f) LocalhostAppHandler \<Rightarrow> string
     \<Rightarrow> (error + 'st) \<times> ('st, 'f) LocalhostAppHandler" where
  "next_subtask h task_work_dir =
     (case h_subtasks h of
        [] \<Rightarrow> (Inl IndexError, h)
      | x # xs \<Rightarrow> (Inr x, h\<lparr>h_subtasks := xs\<rparr>))"

text \<open>\<^verbatim>\<open>return self._verify_results[subtask_id]\<close>: a missing key raises KeyError.\<close>

definition verify ::
  "('st, 'f) LocalhostAppHandler \<Rightarrow> string \<Rightarrow> string
     \<Rightarrow> (error + (bool \<times> string option)) \<times> ('st, 'f) LocalhostAppHandler" where
  "verify h task_work_dir subtask_id =
     (case h_verify_results h subtask_id of
        None \<Rightarrow> (Inl KeyError, h)
      | Some r \<Rightarrow> (Inr r, h))"

definition discard_subtasks ::
  "('st, 'f) LocalhostAppHandler \<Rightarrow> string \<Rightarrow> string list
     \<Rightarrow> (error + string list) \<times> ('st, 'f) LocalhostAppHandler" where
  "discard_subtasks h task_work_dir subtask_ids = (Inr [], h)"

definition run_benchmark ::
  "('st, 'f) LocalhostAppHandler \<Rightarrow> string
     \<Rightarrow> (error + 'f) \<times> ('st, 'f) LocalhostAppHandler" where
  "run_benchmark h work_dir = (Inr (h_benchmark_result h), h)"

text \<open>\<^verbatim>\<open>return bool(self._subtasks)\<close>: a list is true when it is not empty.\<close>

definition has_pending_subtasks ::
  "('st, 'f) LocalhostAppHandler \<Rightarrow> string
     \<Rightarrow> (error + bool) \<times> ('st, 'f) LocalhostAppHandler" where
  "has_pending_subtasks h task_work_dir = (Inr (h_subtasks h \<noteq> []), h)"

text \<open>\<^verbatim>\<open>return self._compute_results[subtask_id]\<close>: a missing key raises KeyError.\<close>

definition compute ::
  "('st, 'f) LocalhostAppHandler \<Rightarrow> string \<Rightarrow> string \<Rightarrow> 'p
     \<Rightarrow> (error + string) \<times> ('st, 'f) LocalhostAppHandler" where
  "compute h task_work_dir subtask_id subtask_params =
     (case h_compute_results h subtask_id of
        None \<Rightarrow> (Inl KeyError, h)
      | Some r \<Rightarrow> (Inr r, h))"

section \<open>tests/golem/envs/localhost.py: the runtime\<close>

text \<open>
  \<^verbatim>\<open>LocalhostPayload\<close>: the launch command, the shared directory and the prerequisites.
\<close>

record ('st, 'f) LocalhostPayload =
  payload_command :: string
  shared_dir :: string
  prerequisites :: "('st, 'f) LocalhostPrerequisites"

text \<open>
  The lifecycle state kept by \<^verbatim>\<open>RuntimeBase\<close>, with the spec's names for its values.
\<close>

datatype lifecycle = Uninitialized | Prepared | Started | Stopped | Torn_down | Failed

text \<open>
  External objects are known by identity only: an \<^verbatim>\<open>AppServer\<close>, and the event loop a
  worker thread creates (numbered by that thread). A thread is known by its position
  in the table of threads created so far.
\<close>

datatype AppServer = AppServer nat

datatype event_loop = Event_loop nat

text \<open>
  Where a worker thread stands in \<^verbatim>\<open>_spawn_server\<close>: started with no statement
  executed yet; inside \<^verbatim>\<open>run_until_complete(entrypoint(...))\<close>; or terminated.
\<close>

datatype worker = Launched | Serving | Terminated

text \<open>
  What a \<^verbatim>\<open>twisted\<close> call of the runtime returns: \<^verbatim>\<open>defer.succeed(None)\<close>,
  \<^verbatim>\<open>defer.fail()\<close>, or \<^verbatim>\<open>threads.deferToThread(thread.join, timeout=t)\<close>, the join
  of the given thread run in a thread of the reactor's pool.
\<close>

datatype deferred = Succeed | Fail | DeferToThread_join nat nat

text \<open>
  The attributes of a \<^verbatim>\<open>LocalhostRuntime\<close> (\<^verbatim>\<open>_command\<close>, \<^verbatim>\<open>_work_dir\<close>,
  \<^verbatim>\<open>_app_handler\<close>, \<^verbatim>\<open>_server\<close>, \<^verbatim>\<open>_server_loop\<close>, \<^verbatim>\<open>_server_thread\<close>), the two
  pieces of state its base class keeps (the lifecycle state and the recorded fault),
  and the table of the threads that \<^verbatim>\<open>start\<close> has created.
\<close>

record ('st, 'f) LocalhostRuntime =
  rt_command :: string
  rt_work_dir :: string
  rt_app_handler :: "('st, 'f) LocalhostAppHandler"
  rt_server :: "AppServer option"
  rt_server_loop :: "event_loop option"
  rt_server_thread :: "nat option"
  status :: lifecycle
  fault :: "(exc \<times> string) option"
  workers :: "worker list"

definition LocalhostRuntime_init ::
  "('st, 'f) LocalhostPayload \<Rightarrow> ('st, 'f) LocalhostRuntime" where
  "LocalhostRuntime_init payload =
     \<lparr> rt_command = payload_command payload,
       rt_work_dir = shared_dir payload,
       rt_app_handler = LocalhostAppHandler_init (prerequisites payload),
       rt_server = None,
       rt_server_loop = None,
       rt_server_thread = None,
       status = Uninitialized,
       fault = None,
       workers = [] \<rparr>"

text \<open>
  Modelled from the spec: the bookkeeping methods of \<^verbatim>\<open>RuntimeBase\<close> (\<^verbatim>\<open>_prepared\<close>,
  \<^verbatim>\<open>_started\<close>, \<^verbatim>\<open>_stopped\<close>, \<^verbatim>\<open>_torn_down\<close>, \<^verbatim>\<open>_error_occurred\<close>) are defined in
  \<^verbatim>\<open>golem.envs\<close>, which is not among the sources. The spec says of each that the
  runtime transitions to the state of that name, and of the last that the runtime
  transitions to \<open>failed\<close> and records the fault.
\<close>

definition prepared :: "('st, 'f) LocalhostRuntime \<Rightarrow> ('st, 'f) LocalhostRuntime" where
  "prepared s = s\<lparr>status := Prepared\<rparr>"

definition started :: "('st, 'f) LocalhostRuntime \<Rightarrow> ('st, 'f) LocalhostRuntime" where
  "started s = s\<lparr>status := Started\<rparr>"

definition stopped :: "('st, 'f) LocalhostRuntime \<Rightarrow> ('st, 'f) LocalhostRuntime" where
  "stopped s = s\<lparr>status := Stopped\<rparr>"

definition torn_down :: "('st, 'f) LocalhostRuntime \<Rightarrow> ('st, 'f) LocalhostRuntime" where
  "torn_down s = s\<lparr>status := Torn_down\<rparr>"

definition error_occurred ::
  "exc \<Rightarrow> string \<Rightarrow> ('st, 'f) LocalhostRuntime \<Rightarrow> ('st, 'f) LocalhostRuntime" where
  "error_occurred e message s = s\<lparr>status := Failed, fault := Some (e, message)\<rparr>"

text \<open>\<^verbatim>\<open>str(e)\<close> of an exception object.\<close>

fun str_exc :: "exc \<Rightarrow> string" where
  "str_exc (Exception m) = m"
| "str_exc (BaseException_only m) = m"

definition prepare ::
  "('st, 'f) LocalhostRuntime \<Rightarrow> (error + deferred) \<times> ('st, 'f) LocalhostRuntime" where
  "prepare s = (Inr Succeed, prepared s)"

definition clean_up ::
  "('st, 'f) LocalhostRuntime \<Rightarrow> (error + deferred) \<times> ('st, 'f) LocalhostRuntime" where
  "clean_up s = (Inr Succeed, torn_down s)"

text \<open>
  \<^verbatim>\<open>_spawn_server\<close> is the target of the worker thread. Its first two statements
  create the event loop and store it in \<^verbatim>\<open>_server_loop\<close>; then it blocks in
  \<^verbatim>\<open>run_until_complete(entrypoint(...))\<close>. The worker is thread \<open>i\<close> of the table.
\<close>

definition spawn_server_enter ::
  "nat \<Rightarrow> ('st, 'f) LocalhostRuntime \<Rightarrow> ('st, 'f) LocalhostRuntime" where
  "spawn_server_enter i s =
     s\<lparr>rt_server_loop := Some (Event_loop i), workers := (workers s)[i := Serving]\<rparr>"

text \<open>
  The rest of \<^verbatim>\<open>_spawn_server\<close>, from the moment the entry point is over: \<open>outcome\<close>
  is \<open>None\<close> when it returned and \<open>Some e\<close> when it raised \<open>e\<close>. The handler is
  \<^verbatim>\<open>except Exception as e\<close>: it calls \<^verbatim>\<open>_error_occurred(e, str(e))\<close>; an exception
  object that is not an instance of \<^verbatim>\<open>Exception\<close> is not caught and leaves the
  function. The \<^verbatim>\<open>else\<close> branch calls \<^verbatim>\<open>_stopped()\<close>.
\<close>

definition spawn_server_leave ::
  "nat \<Rightarrow> exc option \<Rightarrow> ('st, 'f) LocalhostRuntime
     \<Rightarrow> (error + unit) \<times> ('st, 'f) LocalhostRuntime" where
  "spawn_server_leave i outcome s =
     (let s' = s\<lparr>workers := (workers s)[i := Terminated]\<rparr> in
      case outcome of
        None \<Rightarrow> (Inr (), stopped s')
      | Some (Exception m) \<Rightarrow> (Inr (), error_occurred (Exception m) (str_exc (Exception m)) s')
      | Some (BaseException_only m) \<Rightarrow> (Inl (Propagated (BaseException_only m)), s'))"

text \<open>The whole of \<^verbatim>\<open>_spawn_server\<close>, run by worker \<open>i\<close>.\<close>

definition spawn_server ::
  "nat \<Rightarrow> exc option \<Rightarrow> ('st, 'f) LocalhostRuntime
     \<Rightarrow> (error + unit) \<times> ('st, 'f) LocalhostRuntime" where
  "spawn_server i outcome s = spawn_server_leave i outcome (spawn_server_enter i s)"

text \<open>
  \<^verbatim>\<open>start\<close>: creates the thread and stores it in \<^verbatim>\<open>_server_thread\<close>, starts it (the
  new thread enters the table at \<open>Launched\<close>), calls \<^verbatim>\<open>_started()\<close> and returns
  \<^verbatim>\<open>defer.succeed(None)\<close>. It executes no statement of \<^verbatim>\<open>_spawn_server\<close> itself.
\<close>

definition start ::
  "('st, 'f) LocalhostRuntime \<Rightarrow> (error + deferred) \<times> ('st, 'f) LocalhostRuntime" where
  "start s =
     (Inr Succeed,
      started (s\<lparr>rt_server_thread := Some (length (workers s)),
                 workers := workers s @ [Launched]\<rparr>))"

text \<open>
  \<^verbatim>\<open>stop\<close>: three assertions, in the source's order; then
  \<^verbatim>\<open>self._server_loop.run_until_complete(self._server.stop())\<close>, whose outcome is the
  parameter \<open>submit\<close> (\<open>None\<close>: it returned; \<open>Some e\<close>: it raised \<open>e\<close>). An instance of
  \<^verbatim>\<open>Exception\<close> is caught and \<^verbatim>\<open>defer.fail()\<close> returned; otherwise the result is
  \<^verbatim>\<open>threads.deferToThread(self._server_thread.join, timeout=10)\<close>.
\<close>

definition stop ::
  "exc option \<Rightarrow> ('st, 'f) LocalhostRuntime
     \<Rightarrow> (error + deferred) \<times> ('st, 'f) LocalhostRuntime" where
  "stop submit s =
     (case rt_server s of
        None \<Rightarrow> (Inl AssertionError, s)
      | Some server \<Rightarrow>
     (case rt_server_loop s of
        None \<Rightarrow> (Inl AssertionError, s)
      | Some loop \<Rightarrow>
     (case rt_server_thread s of
        None \<Rightarrow> (Inl AssertionError, s)
      | Some thread \<Rightarrow>
     (case submit of
        Some (Exception m) \<Rightarrow> (Inr Fail, s)
      | Some (BaseException_only m) \<Rightarrow> (Inl (Propagated (BaseException_only m)), s)
      | None \<Rightarrow> (Inr (DeferToThread_join thread 10), s)))))"

definition get_port_mapping ::
  "('st, 'f) LocalhostRuntime \<Rightarrow> int \<Rightarrow> string \<times> int" where
  "get_port_mapping s port = (''127.0.0.1'', port)"

text \<open>
  The runtime as a state machine: the calls of the orchestrator and the two steps of
  each worker thread, in any order. A worker step is taken only by a thread of the
  table that stands at the matching point of \<^verbatim>\<open>_spawn_server\<close>.
\<close>

datatype action =
    Prepare
  | Start
  | Stop "exc option"
  | Clean_up
  | Worker_enter nat
  | Worker_leave nat "exc option"

fun exec :: "action \<Rightarrow> ('st, 'f) LocalhostRuntime \<Rightarrow> ('st, 'f) LocalhostRuntime" where
  "exec Prepare s = snd (prepare s)"
| "exec Start s = snd (start s)"
| "exec (Stop submit) s = snd (stop submit s)"
| "exec Clean_up s = snd (clean_up s)"
| "exec (Worker_enter i) s =
     (if i < length (workers s) \<and> workers s ! i = Launched
      then spawn_server_enter i s else s)"
| "exec (Worker_leave i outcome) s =
     (if i < length (workers s) \<and> workers s ! i = Serving
      then snd (spawn_server_leave i outcome s) else s)"

fun run :: "action list \<Rightarrow> ('st, 'f) LocalhostRuntime \<Rightarrow> ('st, 'f) LocalhostRuntime" where
  "run [] s = s"
| "run (a # as) s = run as (exec a s)"

section \<open>scripts/node_integration_tests/helpers.py: shutting a process down\<close>

text \<open>
  \<^verbatim>\<open>str\<close> of a Python integer, as \<^verbatim>\<open>"%s" % exit_code\<close> prints it.
\<close>

function str_nat :: "nat \<Rightarrow> string" where
  "str_nat n =
     (if n < 10 then [char_of (48 + n)]
      else str_nat (n div 10) @ [char_of (48 + n mod 10)])"
  by pat_completeness auto
termination
  by (relation "measure (\<lambda>n. n)") auto

declare str_nat.simps [simp del]

definition str_int :: "int \<Rightarrow> string" where
  "str_int i = (if i < 0 then CHR ''-'' # str_nat (nat (- i)) else str_nat (nat i))"

text \<open>
  A \<^verbatim>\<open>subprocess.Popen\<close> object, as far as \<^verbatim>\<open>gracefully_shutdown\<close> uses it:
  \<open>wait p t\<close> is what \<^verbatim>\<open>process.wait(t)\<close> does after the termination request,
  \<open>Some c\<close> when the process has exited with code \<open>c\<close> before the timeout and \<open>None\<close>
  when \<^verbatim>\<open>subprocess.TimeoutExpired\<close> is raised.
\<close>

record process =
  wait :: "nat \<Rightarrow> int option"

text \<open>
  What the function does to the outside, in order: the calls on the process and the
  lines it prints.
\<close>

datatype effect = Terminate | Wait nat | Kill | Print string

text \<open>
  \<^verbatim>\<open>report_termination\<close>: \<^verbatim>\<open>if exit_code:\<close> is true of every integer but 0.
\<close>

definition report_termination :: "int \<Rightarrow> string \<Rightarrow> effect list" where
  "report_termination exit_code node_type =
     (if exit_code \<noteq> 0
      then [Print (node_type @ '' subprocess exited with: '' @ str_int exit_code)]
      else [])"

text \<open>
  \<^verbatim>\<open>gracefully_shutdown\<close>: the result is how the call ends (it has no \<^verbatim>\<open>return\<close>
  statement and one handler, for \<^verbatim>\<open>subprocess.TimeoutExpired\<close>) and its effects.
\<close>

definition gracefully_shutdown :: "process \<Rightarrow> string \<Rightarrow> (error + unit) \<times> effect list" where
  "gracefully_shutdown p node_type =
     (case wait p 60 of
        Some exit_code \<Rightarrow>
          (Inr (),
           [Terminate,
            Print (''Waiting for the '' @ node_type @ '' subprocess to shut-down''),
            Wait 60]
           @ report_termination exit_code node_type)
      | None \<Rightarrow>
          (Inr (),
           [Terminate,
            Print (''Waiting for the '' @ node_type @ '' subprocess to shut-down''),
            Wait 60,
            Print (node_type @ '' graceful shutdown timed-out, issuing sigkill.''),
            Kill]))"

section \<open>scripts/node_integration_tests/helpers.py: bytes and text\<close>

text \<open>
  A line of process output is a Python \<^verbatim>\<open>bytes\<close> object; decoded, it is a \<^verbatim>\<open>str\<close>, a
  sequence of Unicode code points.
\<close>

type_synonym bytes = "8 word list"

type_synonym str = "nat list"

text \<open>
  \<^verbatim>\<open>line.decode('utf-8')\<close> with the default strict error handling: \<open>None\<close> stands for
  \<^verbatim>\<open>UnicodeDecodeError\<close>. The well-formed byte sequences are those of the Unicode
  standard: no overlong form, no surrogate, nothing above U+10FFFF.
\<close>

definition continuation :: "8 word \<Rightarrow> bool" where
  "continuation b = (128 \<le> unat b \<and> unat b \<le> 191)"

fun utf8_decode :: "bytes \<Rightarrow> str option" where
  "utf8_decode [] = Some []"
| "utf8_decode (b0 # bs) =
     (if unat b0 \<le> 127 then
        map_option (\<lambda>t. unat b0 # t) (utf8_decode bs)
      else if 194 \<le> unat b0 \<and> unat b0 \<le> 223 then
        (case bs of
           b1 # r \<Rightarrow>
             if continuation b1
             then map_option
                    (\<lambda>t. ((unat b0 mod 32) * 64 + unat b1 mod 64) # t) (utf8_decode r)
             else None
         | _ \<Rightarrow> None)
      else if 224 \<le> unat b0 \<and> unat b0 \<le> 239 then
        (case bs of
           b1 # b2 # r \<Rightarrow>
             if continuation b1 \<and> continuation b2
                \<and> (if unat b0 = 224 then 160 \<le> unat b1 else True)
                \<and> (if unat b0 = 237 then unat b1 \<le> 159 else True)
             then map_option
                    (\<lambda>t. ((unat b0 mod 16) * 4096 + (unat b1 mod 64) * 64 + unat b2 mod 64) # t)
                    (utf8_decode r)
             else None
         | _ \<Rightarrow> None)
      else if 240 \<le> unat b0 \<and> unat b0 \<le> 244 then
        (case bs of
           b1 # b2 # b3 # r \<Rightarrow>
             if continuation b1 \<and> continuation b2 \<and> continuation b3
                \<and> (if unat b0 = 240 then 144 \<le> unat b1 else True)
                \<and> (if unat b0 = 244 then unat b1 \<le> 143 else True)
             then map_option
                    (\<lambda>t. ((unat b0 mod 8) * 262144 + (unat b1 mod 64) * 4096
                          + (unat b2 mod 64) * 64 + unat b3 mod 64) # t)
                    (utf8_decode r)
             else None
         | _ \<Rightarrow> None)
      else None)"

section \<open>scripts/node_integration_tests/helpers.py: the output relay\<close>

text \<open>
  \<^verbatim>\<open>stream.readline()\<close> on the bytes the process has still to deliver: the bytes up
  to and including the first newline (byte 10), or all of them when there is none;
  \<^verbatim>\<open>b''\<close> only at the end of the stream. The result is the line and the bytes left.
\<close>

fun readline :: "bytes \<Rightarrow> bytes \<times> bytes" where
  "readline [] = ([], [])"
| "readline (b # bs) =
     (if b = 10 then ([b], bs)
      else (case readline bs of (line, rest) \<Rightarrow> (b # line, rest)))"

lemma readline_shorter:
  "readline bs = (line, rest) \<Longrightarrow> line \<noteq> [] \<Longrightarrow> length rest < length bs"
proof (induction bs arbitrary: line rest)
  case Nil
  then show ?case by simp
next
  case (Cons b bs)
  show ?case
  proof (cases "b = 10")
    case True
    with Cons.prems show ?thesis by simp
  next
    case False
    obtain l r where lr: "readline bs = (l, r)" by (cases "readline bs")
    with False Cons.prems have rest: "rest = r" by simp
    show ?thesis
    proof (cases "l = []")
      case True
      with lr have "r = []" by (cases bs) (auto split: if_splits prod.splits)
      with rest show ?thesis by simp
    next
      case False
      with Cons.IH [OF lr] rest show ?thesis by simp
    qed
  qed
qed

text \<open>
  The reader thread of \<^verbatim>\<open>get_output_queue\<close>:
  \<^verbatim>\<open>for line in iter(stream.readline, b''): q.put(line)\<close>. The loop ends at the first
  \<^verbatim>\<open>b''\<close> and puts nothing for it. \<open>output_queue stream q\<close> is the queue once the
  loop has ended, when nothing is taken from the queue meanwhile.
\<close>

function output_queue :: "bytes \<Rightarrow> bytes list \<Rightarrow> bytes list" where
  "output_queue stream q =
     (case readline stream of
        (line, rest) \<Rightarrow> if line = [] then q else output_queue rest (q @ [line]))"
  by pat_completeness auto
termination
  by (relation "measure (\<lambda>(stream, q). length stream)")
     (auto dest: readline_shorter [OF sym])

declare output_queue.simps [simp del]



text \<open>\<^verbatim>\<open>clear_output\<close>: takes lines until the queue is empty.\<close>

fun clear_output :: "bytes list \<Rightarrow> bytes list" where
  "clear_output [] = []"
| "clear_output (line # q) = clear_output q"

text \<open>
  \<^verbatim>\<open>search_output\<close> on the lines queued when it is called: how the call ends (a
  match object, \<^verbatim>\<open>None\<close>, or an error) and the queue it leaves. \<^verbatim>\<open>if line:\<close> skips an
  empty \<^verbatim>\<open>bytes\<close> object; a match object is always true, so \<^verbatim>\<open>if m:\<close> asks whether
  \<^verbatim>\<open>re.match\<close> returned one. \<^verbatim>\<open>re.match\<close> belongs to the standard library and is the
  parameter \<open>matcher\<close>; \<open>re_match\<close> below models it.
\<close>

fun search_output ::
  "('p \<Rightarrow> str \<Rightarrow> 'm option) \<Rightarrow> bytes list \<Rightarrow> 'p \<Rightarrow> (error + 'm option) \<times> bytes list" where
  "search_output matcher [] pattern = (Inr None, [])"
| "search_output matcher (line # q) pattern =
     (if line \<noteq> [] then
        (case utf8_decode line of
           None \<Rightarrow> (Inl UnicodeDecodeError, q)
         | Some t \<Rightarrow>
             (case matcher pattern t of
                Some m \<Rightarrow> (Inr (Some m), q)
              | None \<Rightarrow> search_output matcher q pattern))
      else search_output matcher q pattern)"

text \<open>
  The relay with its two threads running together. \<open>stream\<close> holds the bytes the
  reader has not read yet, \<open>queue\<close> the lines put and not yet taken, \<open>sink\<close> the
  strings written to \<^verbatim>\<open>sys.stdout\<close>; \<open>taken\<close> records the lines the consumer has
  taken from the queue, in the order it took them.
\<close>

record relay =
  stream :: bytes
  queue :: "bytes list"
  taken :: "bytes list"
  sink :: "str list"









section \<open>A model of \<^verbatim>\<open>re.match\<close>\<close>

text \<open>
  Patterns of the regular fragment of Python's \<^verbatim>\<open>re\<close>: the empty pattern, a literal
  character, \<^verbatim>\<open>.\<close> (any character but the newline), concatenation, \<^verbatim>\<open>|\<close> and \<^verbatim>\<open>*\<close>.
\<close>

datatype rexp =
    Eps
  | Chr nat
  | Dot
  | Cat rexp rexp
  | Alt rexp rexp
  | Star rexp

text \<open>\<open>matches r w\<close>: the pattern matches the whole of \<open>w\<close>.\<close>

inductive matches :: "rexp \<Rightarrow> str \<Rightarrow> bool" where
  m_Eps: "matches Eps []"
| m_Chr: "matches (Chr c) [c]"
| m_Dot: "c \<noteq> 10 \<Longrightarrow> matches Dot [c]"
| m_Cat: "matches r u \<Longrightarrow> matches s v \<Longrightarrow> matches (Cat r s) (u @ v)"
| m_AltL: "matches r w \<Longrightarrow> matches (Alt r s) w"
| m_AltR: "matches s w \<Longrightarrow> matches (Alt r s) w"
| m_Star0: "matches (Star r) []"
| m_Star: "matches r u \<Longrightarrow> matches (Star r) v \<Longrightarrow> matches (Star r) (u @ v)"

text \<open>
  The executable matcher: \<open>nullable r\<close> says whether \<open>r\<close> matches the empty string,
  \<open>deriv c r\<close> is what is left of \<open>r\<close> once \<open>c\<close> has been read.
\<close>

fun nullable :: "rexp \<Rightarrow> bool" where
  "nullable Eps = True"
| "nullable (Chr c) = False"
| "nullable Dot = False"
| "nullable (Cat r s) = (nullable r \<and> nullable s)"
| "nullable (Alt r s) = (nullable r \<or> nullable s)"
| "nullable (Star r) = True"

text \<open>
  The fragment has no pattern that matches no string at all, so what is left of a
  pattern after a character is a pattern or \<open>Nothing\<close>.
\<close>

datatype rx = Nothing | Rx rexp

fun rx_alt :: "rx \<Rightarrow> rx \<Rightarrow> rx" where
  "rx_alt Nothing y = y"
| "rx_alt x Nothing = x"
| "rx_alt (Rx r) (Rx s) = Rx (Alt r s)"

fun rx_cat :: "rx \<Rightarrow> rexp \<Rightarrow> rx" where
  "rx_cat Nothing s = Nothing"
| "rx_cat (Rx r) s = Rx (Cat r s)"

fun deriv :: "nat \<Rightarrow> rexp \<Rightarrow> rx" where
  "deriv c Eps = Nothing"
| "deriv c (Chr d) = (if c = d then Rx Eps else Nothing)"
| "deriv c Dot = (if c \<noteq> 10 then Rx Eps else Nothing)"
| "deriv c (Cat r s) =
     (if nullable r then rx_alt (rx_cat (deriv c r) s) (deriv c s)
      else rx_cat (deriv c r) s)"
| "deriv c (Alt r s) = rx_alt (deriv c r) (deriv c s)"
| "deriv c (Star r) = rx_cat (deriv c r) (Star r)"

text \<open>\<open>match_prefix r w\<close>: some prefix of \<open>w\<close>, from its first character on, matches \<open>r\<close>.\<close>

fun match_prefix :: "rexp \<Rightarrow> str \<Rightarrow> bool" where
  "match_prefix r [] = nullable r"
| "match_prefix r (c # w) =
     (nullable r \<or> (case deriv c r of Nothing \<Rightarrow> False | Rx r' \<Rightarrow> match_prefix r' w))"

text \<open>
  A match object, as far as it is modelled: \<^verbatim>\<open>m.string\<close>, the string the pattern was
  matched against. \<^verbatim>\<open>re.match(pattern, string)\<close> returns one when the pattern matches
  at the beginning of the string, and \<^verbatim>\<open>None\<close> otherwise.
\<close>

record match_object =
  m_string :: str

definition re_match :: "rexp \<Rightarrow> str \<Rightarrow> match_object option" where
  "re_match pattern string =
     (if match_prefix pattern string then Some \<lparr> m_string = string \<rparr> else None)"

text \<open>
  \<^verbatim>\<open>re.search\<close>, which the source does not call: it scans the string for the first
  position where the pattern matches.
\<close>

fun re_search :: "rexp \<Rightarrow> str \<Rightarrow> match_object option" where
  "re_search pattern [] = re_match pattern []"
| "re_search pattern (c # w) =
     (if match_prefix pattern (c # w) then Some \<lparr> m_string = c # w \<rparr>
      else map_option (\<lambda>m. \<lparr> m_string = c # m_string m \<rparr>) (re_search pattern w))"

section \<open>Notions used in the proofs\<close>

text \<open>What a derivative matches: \<open>Nothing\<close> matches no string.\<close>

fun rx_matches :: "rx \<Rightarrow> str \<Rightarrow> bool" where
  "rx_matches Nothing w = False"
| "rx_matches (Rx r) w = matches r w"



text \<open>
  A line that \<^verbatim>\<open>search_output\<close> passes over: empty, or decoded and not matched.
\<close>

definition unmatched :: "('p \<Rightarrow> str \<Rightarrow> 'm option) \<Rightarrow> 'p \<Rightarrow> bytes \<Rightarrow> bool" where
  "unmatched matcher pattern line =
     (line = [] \<or> (\<exists>u. utf8_decode line = Some u \<and> matcher pattern u = None))"

section \<open>Concrete inputs\<close>

text \<open>
  A fixture with one subtask and matching results, the payload built from it, and the
  runtime after \<^verbatim>\<open>prepare()\<close>, \<^verbatim>\<open>start()\<close> and the first statements of the worker.
\<close>

definition fixture :: "(string, nat) LocalhostPrerequisites" where
  "fixture =
     \<lparr> compute_results = [''s1'' \<mapsto> ''r1''],
       benchmark_result = 1,
       subtasks = [''s1''],
       verify_results = [''s1'' \<mapsto> (True, None)] \<rparr>"

definition fixture_payload :: "(string, nat) LocalhostPayload" where
  "fixture_payload =
     \<lparr> payload_command = ''app --serve'', shared_dir = ''/tmp/shared'',
       prerequisites = fixture \<rparr>"

definition serving_runtime :: "(string, nat) LocalhostRuntime" where
  "serving_runtime =
     run [Prepare, Start, Worker_enter 0] (LocalhostRuntime_init fixture_payload)"

text \<open>A process that exits with code 1 when asked to, and one that never exits.\<close>

definition obedient :: process where
  "obedient = \<lparr> wait = (\<lambda>t. Some 1) \<rparr>"

definition stubborn :: process where
  "stubborn = \<lparr> wait = (\<lambda>t. None) \<rparr>"

section \<open>Properties of the handler stub\<close>

text \<open>
  C6. For every handler constructed from prerequisites whose subtasks are \<open>[A, B]\<close>:
  \<open>has_pending_subtasks\<close> answers true, \<open>next_subtask\<close> returns \<open>A\<close>;
  \<open>has_pending_subtasks\<close> answers true again, \<open>next_subtask\<close> returns \<open>B\<close>;
  \<open>has_pending_subtasks\<close> then answers false and a third \<open>next_subtask\<close> raises
  IndexError. Each call is made on the handler the previous call left.
\<close>

theorem next_subtask_two_then_out_of_range:
  fixes prereq :: "('st, 'f) LocalhostPrerequisites"
  assumes "subtasks prereq = [A, B]"
  shows "\<exists>h0 h1 h2.
           h0 = LocalhostAppHandler_init prereq
         \<and> has_pending_subtasks h0 d = (Inr True, h0)
         \<and> next_subtask h0 d = (Inr A, h1)
         \<and> has_pending_subtasks h1 d = (Inr True, h1)
         \<and> next_subtask h1 d = (Inr B, h2)
         \<and> has_pending_subtasks h2 d = (Inr False, h2)
         \<and> next_subtask h2 d = (Inl IndexError, h2)"
  using assms
  by (simp add: LocalhostAppHandler_init_def next_subtask_def has_pending_subtasks_def)

theorem next_subtask_two_then_out_of_range_witness:
  "subtasks \<lparr>compute_results = Map.empty, benchmark_result = (0::nat),
              subtasks = [1::nat, 2], verify_results = Map.empty\<rparr> = [1, 2]
   \<and> (\<exists>h0 h1 h2.
          h0 = LocalhostAppHandler_init
                 \<lparr>compute_results = Map.empty, benchmark_result = (0::nat),
                  subtasks = [1::nat, 2], verify_results = Map.empty\<rparr>
        \<and> has_pending_subtasks h0 ''w'' = (Inr True, h0)
        \<and> next_subtask h0 ''w'' = (Inr 1, h1)
        \<and> has_pending_subtasks h1 ''w'' = (Inr True, h1)
        \<and> next_subtask h1 ''w'' = (Inr 2, h2)
        \<and> has_pending_subtasks h2 ''w'' = (Inr False, h2)
        \<and> next_subtask h2 ''w'' = (Inl IndexError, h2))"
  using next_subtask_two_then_out_of_range
    [of "\<lparr>compute_results = Map.empty, benchmark_result = (0::nat),
          subtasks = [1::nat, 2], verify_results = Map.empty\<rparr>" 1 2 "''w''"]
  by simp

text \<open>
  C7. For every handler and every subtask id: \<open>compute\<close> returns the entry of the
  compute results under that id when there is one and raises KeyError otherwise;
  \<open>verify\<close> does the same with the verify results; both leave the handler as it was.
\<close>

theorem compute_verify_lookup:
  "(h_compute_results h sid = Some r \<longrightarrow> compute h d sid ps = (Inr r, h))
 \<and> (h_compute_results h sid = None \<longrightarrow> compute h d sid ps = (Inl KeyError, h))
 \<and> (h_verify_results h sid = Some v \<longrightarrow> verify h d sid = (Inr v, h))
 \<and> (h_verify_results h sid = None \<longrightarrow> verify h d sid = (Inl KeyError, h))
 \<and> snd (compute h d sid ps) = h
 \<and> snd (verify h d sid) = h"
  by (simp add: compute_def verify_def split: option.splits)

theorem compute_verify_lookup_witness:
  "compute (LocalhostAppHandler_init fixture) ''w'' ''s1'' ()
     = (Inr ''r1'', LocalhostAppHandler_init fixture)
 \<and> compute (LocalhostAppHandler_init fixture) ''w'' ''s2'' ()
     = (Inl KeyError, LocalhostAppHandler_init fixture)
 \<and> verify (LocalhostAppHandler_init fixture) ''w'' ''s1''
     = (Inr (True, None), LocalhostAppHandler_init fixture)
 \<and> verify (LocalhostAppHandler_init fixture) ''w'' ''s2''
     = (Inl KeyError, LocalhostAppHandler_init fixture)"
proof -
  let ?h = "LocalhostAppHandler_init fixture"
  have c1: "h_compute_results ?h ''s1'' = Some ''r1''"
    and c2: "h_compute_results ?h ''s2'' = None"
    and v1: "h_verify_results ?h ''s1'' = Some (True, None)"
    and v2: "h_verify_results ?h ''s2'' = None"
    by (simp_all add: LocalhostAppHandler_init_def fixture_def)
  from compute_verify_lookup [of ?h "''s1''" "''r1''" "''w''" "()" "(True, None)"] c1 v1
  have a: "compute ?h ''w'' ''s1'' () = (Inr ''r1'', ?h)"
    and b: "verify ?h ''w'' ''s1'' = (Inr (True, None), ?h)"
    by blast+
  from compute_verify_lookup [of ?h "''s2''" "''r1''" "''w''" "()" "(True, None)"] c2 v2
  have c: "compute ?h ''w'' ''s2'' () = (Inl KeyError, ?h)"
    and d: "verify ?h ''w'' ''s2'' = (Inl KeyError, ?h)"
    by blast+
  from a b c d show ?thesis by blast
qed

section \<open>Properties of the runtime\<close>

lemma rt_server_exec: "rt_server (exec a s) = rt_server s"
  by (cases a)
     (auto simp: prepare_def prepared_def start_def started_def stop_def clean_up_def
        torn_down_def spawn_server_enter_def spawn_server_leave_def stopped_def
        error_occurred_def Let_def
        split: option.splits exc.splits)

lemma rt_server_run: "rt_server (run as s) = rt_server s"
  by (induction as arbitrary: s) (simp_all add: rt_server_exec)

text \<open>
  C3. \<open>_server\<close> is \<open>None\<close> at construction and stays \<open>None\<close> through every sequence
  of calls of \<open>prepare\<close>, \<open>start\<close>, \<open>stop\<close>, \<open>clean_up\<close> and steps of the worker
  threads; so \<open>stop\<close>, in every state the runtime can reach, fails its first assertion.
\<close>

theorem server_never_assigned:
  "rt_server (LocalhostRuntime_init payload) = None
 \<and> rt_server (run as (LocalhostRuntime_init payload)) = None
 \<and> fst (stop submit (run as (LocalhostRuntime_init payload))) = Inl AssertionError"
  by (simp add: rt_server_run stop_def LocalhostRuntime_init_def)

theorem server_never_assigned_witness:
  "rt_server (LocalhostRuntime_init fixture_payload) = None
 \<and> rt_server
      (run [Prepare, Start, Worker_enter 0, Stop None, Worker_leave 0 None, Clean_up]
         (LocalhostRuntime_init fixture_payload)) = None
 \<and> fst (stop None
      (run [Prepare, Start, Worker_enter 0, Stop None, Worker_leave 0 None, Clean_up]
         (LocalhostRuntime_init fixture_payload))) = Inl AssertionError"
  by (rule server_never_assigned)

text \<open>
  C1, at a runtime on which \<open>start()\<close> has completed and whose worker has created its
  event loop and is serving: \<open>stop()\<close> raises AssertionError at its first assertion
  and changes nothing; it submits no stop request and returns no deferred.
\<close>

theorem stop_after_start_fails_assertion:
  "stop None serving_runtime = (Inl AssertionError, serving_runtime)
 \<and> status serving_runtime = Started
 \<and> rt_server_loop serving_runtime = Some (Event_loop 0)
 \<and> rt_server_thread serving_runtime = Some 0
 \<and> rt_server serving_runtime = None"
  by (simp add: serving_runtime_def stop_def start_def started_def prepare_def prepared_def
      spawn_server_enter_def LocalhostRuntime_init_def)

text \<open>
  C2. For every runtime, \<open>start\<close> returns a deferred that has already succeeded and
  leaves the lifecycle state at \<open>started\<close>, with the new worker thread in the table
  at the point where it has executed nothing of \<open>_spawn_server\<close>: the event loop of
  the server is not created by \<open>start\<close>, and no outcome of the entry point enters
  into what \<open>start\<close> returns.
\<close>

theorem start_signals_started_at_launch:
  "\<exists>s'. start s = (Inr Succeed, s')
       \<and> status s' = Started
       \<and> workers s' = workers s @ [Launched]
       \<and> rt_server_thread s' = Some (length (workers s))
       \<and> workers s' ! length (workers s) = Launched
       \<and> rt_server_loop s' = rt_server_loop s
       \<and> rt_server s' = rt_server s"
  by (simp add: start_def started_def)

theorem start_signals_started_at_launch_witness:
  "\<exists>s'. start (snd (prepare (LocalhostRuntime_init fixture_payload))) = (Inr Succeed, s')
       \<and> status s' = Started
       \<and> workers s' = workers (snd (prepare (LocalhostRuntime_init fixture_payload))) @ [Launched]
       \<and> rt_server_thread s'
           = Some (length (workers (snd (prepare (LocalhostRuntime_init fixture_payload)))))
       \<and> workers s' ! length (workers (snd (prepare (LocalhostRuntime_init fixture_payload))))
           = Launched
       \<and> rt_server_loop s' = rt_server_loop (snd (prepare (LocalhostRuntime_init fixture_payload)))
       \<and> rt_server s' = rt_server (snd (prepare (LocalhostRuntime_init fixture_payload)))"
  by (rule start_signals_started_at_launch)

text \<open>
  C4, as the claim states it, fails for an exception object that is not an instance
  of \<open>Exception\<close>: raised by the entry point in the started runtime, it leaves
  \<open>_spawn_server\<close>, the lifecycle state stays at \<open>started\<close> and no fault is recorded.
\<close>

theorem spawn_server_base_exception_counterexample:
  "fst (spawn_server 0 (Some (BaseException_only ''SystemExit''))
         (run [Prepare, Start] (LocalhostRuntime_init fixture_payload)))
     = Inl (Propagated (BaseException_only ''SystemExit''))
 \<and> status (snd (spawn_server 0 (Some (BaseException_only ''SystemExit''))
         (run [Prepare, Start] (LocalhostRuntime_init fixture_payload)))) = Started
 \<and> fault (snd (spawn_server 0 (Some (BaseException_only ''SystemExit''))
         (run [Prepare, Start] (LocalhostRuntime_init fixture_payload)))) = None"
  by (simp add: spawn_server_def spawn_server_leave_def spawn_server_enter_def start_def
      started_def prepare_def prepared_def LocalhostRuntime_init_def)

text \<open>
  C4, amended. For every runtime whose worker thread runs \<open>_spawn_server\<close>: if the
  entry point raises an instance of \<open>Exception\<close>, \<open>_spawn_server\<close> returns normally
  with the lifecycle state \<open>failed\<close> and the exception and its message recorded; if
  the entry point returns, \<open>_spawn_server\<close> returns normally with the lifecycle state
  \<open>stopped\<close>, set by the worker itself; an exception object that is not an instance
  of \<open>Exception\<close> leaves \<open>_spawn_server\<close> with the lifecycle state unchanged.
\<close>

theorem spawn_server_outcomes:
  "fst (spawn_server i (Some (Exception m)) s) = Inr ()
 \<and> status (snd (spawn_server i (Some (Exception m)) s)) = Failed
 \<and> fault (snd (spawn_server i (Some (Exception m)) s)) = Some (Exception m, m)
 \<and> fst (spawn_server i None s) = Inr ()
 \<and> status (snd (spawn_server i None s)) = Stopped
 \<and> fault (snd (spawn_server i None s)) = fault s
 \<and> fst (spawn_server i (Some (BaseException_only m)) s)
      = Inl (Propagated (BaseException_only m))
 \<and> status (snd (spawn_server i (Some (BaseException_only m)) s)) = status s
 \<and> fault (snd (spawn_server i (Some (BaseException_only m)) s)) = fault s"
  by (simp add: spawn_server_def spawn_server_leave_def spawn_server_enter_def stopped_def
      error_occurred_def)

theorem spawn_server_outcomes_witness:
  "fst (spawn_server 0 (Some (Exception ''boom'')) serving_runtime) = Inr ()
 \<and> status (snd (spawn_server 0 (Some (Exception ''boom'')) serving_runtime)) = Failed
 \<and> fault (snd (spawn_server 0 (Some (Exception ''boom'')) serving_runtime))
      = Some (Exception ''boom'', ''boom'')
 \<and> fst (spawn_server 0 None serving_runtime) = Inr ()
 \<and> status (snd (spawn_server 0 None serving_runtime)) = Stopped
 \<and> fault (snd (spawn_server 0 None serving_runtime)) = fault serving_runtime
 \<and> fst (spawn_server 0 (Some (BaseException_only ''boom'')) serving_runtime)
      = Inl (Propagated (BaseException_only ''boom''))
 \<and> status (snd (spawn_server 0 (Some (BaseException_only ''boom'')) serving_runtime))
      = status serving_runtime
 \<and> fault (snd (spawn_server 0 (Some (BaseException_only ''boom'')) serving_runtime))
      = fault serving_runtime"
  by (rule spawn_server_outcomes)

section \<open>Properties of the graceful shutdown\<close>

text \<open>
  C5. \<open>gracefully_shutdown\<close> first asks the process to terminate, then waits up to
  60 time-units. If the process exits within the bound, the exit code goes to
  \<open>report_termination\<close>, which prints a line for a code other than 0 and nothing
  for 0, and the process is not killed. If the bound is exceeded, the process is
  killed, once, as the last thing the function does, with no wait after it. In both
  cases the call returns without raising.
\<close>

theorem gracefully_shutdown_two_phase:
  "(wait p 60 = Some c \<longrightarrow>
      gracefully_shutdown p node_type =
        (Inr (),
         [Terminate,
          Print (''Waiting for the '' @ node_type @ '' subprocess to shut-down''),
          Wait 60] @ report_termination c node_type)
    \<and> Kill \<notin> set (snd (gracefully_shutdown p node_type)))
 \<and> report_termination c node_type =
      (if c = 0 then []
       else [Print (node_type @ '' subprocess exited with: '' @ str_int c)])
 \<and> (wait p 60 = None \<longrightarrow>
      gracefully_shutdown p node_type =
        (Inr (),
         [Terminate,
          Print (''Waiting for the '' @ node_type @ '' subprocess to shut-down''),
          Wait 60,
          Print (node_type @ '' graceful shutdown timed-out, issuing sigkill.''),
          Kill])
    \<and> count_list (snd (gracefully_shutdown p node_type)) Kill = 1
    \<and> last (snd (gracefully_shutdown p node_type)) = Kill)
 \<and> fst (gracefully_shutdown p node_type) = Inr ()
 \<and> hd (snd (gracefully_shutdown p node_type)) = Terminate"
  by (simp add: gracefully_shutdown_def report_termination_def split: option.splits)

theorem gracefully_shutdown_two_phase_witness:
  "gracefully_shutdown obedient ''provider'' =
     (Inr (),
      [Terminate,
       Print ''Waiting for the provider subprocess to shut-down'',
       Wait 60,
       Print ''provider subprocess exited with: 1''])
 \<and> Kill \<notin> set (snd (gracefully_shutdown obedient ''provider''))
 \<and> gracefully_shutdown stubborn ''provider'' =
     (Inr (),
      [Terminate,
       Print ''Waiting for the provider subprocess to shut-down'',
       Wait 60,
       Print ''provider graceful shutdown timed-out, issuing sigkill.'',
       Kill])
 \<and> count_list (snd (gracefully_shutdown stubborn ''provider'')) Kill = 1
 \<and> last (snd (gracefully_shutdown stubborn ''provider'')) = Kill"
proof -
  have o: "wait obedient 60 = Some 1" by (simp add: obedient_def)
  have s: "wait stubborn 60 = None" by (simp add: stubborn_def)
  have r: "str_int 1 = ''1''" by code_simp
  from gracefully_shutdown_two_phase [of obedient 1 "''provider''"] o
  have a: "gracefully_shutdown obedient ''provider'' =
        (Inr (),
         [Terminate,
          Print (''Waiting for the '' @ ''provider'' @ '' subprocess to shut-down''),
          Wait 60] @ report_termination 1 ''provider'')"
    and a': "Kill \<notin> set (snd (gracefully_shutdown obedient ''provider''))"
    and b: "report_termination 1 ''provider'' =
       [Print (''provider'' @ '' subprocess exited with: '' @ str_int 1)]"
    by simp_all
  from gracefully_shutdown_two_phase [of stubborn 1 "''provider''"] s
  have c: "gracefully_shutdown stubborn ''provider'' =
        (Inr (),
         [Terminate,
          Print (''Waiting for the '' @ ''provider'' @ '' subprocess to shut-down''),
          Wait 60,
          Print (''provider'' @ '' graceful shutdown timed-out, issuing sigkill.''),
          Kill])"
    and c': "count_list (snd (gracefully_shutdown stubborn ''provider'')) Kill = 1"
    and c'': "last (snd (gracefully_shutdown stubborn ''provider'')) = Kill"
    by simp_all
  from a a' b c c' c'' r show ?thesis by simp
qed




section \<open>Properties of the output relay\<close>



lemma output_queue_eof:
  "readline st = ([], rest) \<Longrightarrow> output_queue st [] = []"
  by (simp add: output_queue.simps [of st])













section \<open>Properties of the search\<close>

inductive_simps matches_Eps: "matches Eps w"
inductive_simps matches_Chr: "matches (Chr c) w"
inductive_simps matches_Dot: "matches Dot w"
inductive_simps matches_Cat: "matches (Cat r s) w"
inductive_simps matches_Alt: "matches (Alt r s) w"

lemma nullable_iff: "nullable r \<longleftrightarrow> matches r []"
  by (induction r) (auto simp: matches_Eps matches_Chr matches_Dot matches_Cat matches_Alt
      intro: matches.intros)

lemma rx_alt_iff: "rx_matches (rx_alt x y) w \<longleftrightarrow> rx_matches x w \<or> rx_matches y w"
  by (cases x; cases y) (auto simp: matches_Alt)

lemma rx_cat_iff:
  "rx_matches (rx_cat x s) w \<longleftrightarrow> (\<exists>u v. w = u @ v \<and> rx_matches x u \<and> matches s v)"
  by (cases x) (auto simp: matches_Cat)

lemma star_cons_split:
  "matches R x \<Longrightarrow> R = Star r \<Longrightarrow> x = c # w \<Longrightarrow>
     \<exists>u v. w = u @ v \<and> matches r (c # u) \<and> matches (Star r) v"
proof (induction arbitrary: w rule: matches.induct)
  case (m_Star r' u v)
  show ?case
  proof (cases u)
    case Nil
    with m_Star show ?thesis by simp
  next
    case (Cons a u')
    with m_Star.prems m_Star.hyps show ?thesis by auto
  qed
qed simp_all

lemma matches_Star_cons:
  "matches (Star r) (c # w) \<longleftrightarrow>
     (\<exists>u v. w = u @ v \<and> matches r (c # u) \<and> matches (Star r) v)"
proof
  assume "matches (Star r) (c # w)"
  then show "\<exists>u v. w = u @ v \<and> matches r (c # u) \<and> matches (Star r) v"
    using star_cons_split by blast
next
  assume "\<exists>u v. w = u @ v \<and> matches r (c # u) \<and> matches (Star r) v"
  then obtain u v where "w = u @ v" "matches r (c # u)" "matches (Star r) v" by blast
  then show "matches (Star r) (c # w)"
    using m_Star [of r "c # u" v] by simp
qed

lemma deriv_iff: "rx_matches (deriv c r) w \<longleftrightarrow> matches r (c # w)"
proof (induction r arbitrary: w)
  case Eps
  then show ?case by (simp add: matches_Eps)
next
  case (Chr d)
  then show ?case by (auto simp: matches_Eps matches_Chr)
next
  case Dot
  then show ?case by (auto simp: matches_Eps matches_Dot)
next
  case (Cat r s)
  show ?case
  proof
    assume "rx_matches (deriv c (Cat r s)) w"
    then consider (l) "rx_matches (rx_cat (deriv c r) s) w"
      | (r) "nullable r" "rx_matches (deriv c s) w"
      by (auto simp: rx_alt_iff split: if_splits)
    then show "matches (Cat r s) (c # w)"
    proof cases
      case l
      then obtain u v where "w = u @ v" "matches r (c # u)" "matches s v"
        using Cat.IH(1) by (auto simp: rx_cat_iff)
      then show ?thesis using m_Cat [of r "c # u" s v] by simp
    next
      case r
      then have "matches r []" "matches s (c # w)"
        using Cat.IH(2) by (simp_all add: nullable_iff)
      then show ?thesis using m_Cat [of r "[]" s "c # w"] by simp
    qed
  next
    assume "matches (Cat r s) (c # w)"
    then obtain u v where uv: "c # w = u @ v" "matches r u" "matches s v"
      by (auto simp: matches_Cat)
    show "rx_matches (deriv c (Cat r s)) w"
    proof (cases u)
      case Nil
      with uv have "nullable r" "rx_matches (deriv c s) w"
        using Cat.IH(2) by (simp_all add: nullable_iff)
      then show ?thesis by (simp add: rx_alt_iff)
    next
      case (Cons a u')
      with uv have "w = u' @ v" "rx_matches (deriv c r) u'"
        using Cat.IH(1) by auto
      with uv(3) have "rx_matches (rx_cat (deriv c r) s) w"
        by (auto simp: rx_cat_iff)
      then show ?thesis by (simp add: rx_alt_iff)
    qed
  qed
next
  case (Alt r s)
  then show ?case by (simp add: rx_alt_iff matches_Alt)
next
  case (Star r)
  then show ?case by (simp add: rx_cat_iff matches_Star_cons)
qed

lemma match_prefix_iff: "match_prefix r w \<longleftrightarrow> (\<exists>n. matches r (take n w))"
proof (induction w arbitrary: r)
  case Nil
  then show ?case by (simp add: nullable_iff)
next
  case (Cons c w)
  have "(\<exists>n. matches r (take n (c # w))) \<longleftrightarrow>
          matches r [] \<or> (\<exists>n. matches r (c # take n w))"
  proof
    assume "\<exists>n. matches r (take n (c # w))"
    then obtain n where n: "matches r (take n (c # w))" ..
    then show "matches r [] \<or> (\<exists>n. matches r (c # take n w))"
      by (cases n) auto
  next
    assume "matches r [] \<or> (\<exists>n. matches r (c # take n w))"
    then show "\<exists>n. matches r (take n (c # w))"
    proof
      assume "matches r []"
      then have "matches r (take 0 (c # w))" by simp
      then show ?thesis ..
    next
      assume "\<exists>n. matches r (c # take n w)"
      then obtain n where "matches r (c # take n w)" ..
      then have "matches r (take (Suc n) (c # w))" by simp
      then show ?thesis ..
    qed
  qed
  also have "\<dots> \<longleftrightarrow> nullable r \<or> (\<exists>n. rx_matches (deriv c r) (take n w))"
    by (simp add: nullable_iff deriv_iff)
  also have "\<dots> \<longleftrightarrow> match_prefix r (c # w)"
    using Cons.IH by (cases "deriv c r") auto
  finally show ?case ..
qed

lemma search_output_skip:
  "\<forall>l \<in> set pre. unmatched matcher pat l \<Longrightarrow>
     search_output matcher (pre @ rest) pat = search_output matcher rest pat"
  by (induction pre) (auto simp: unmatched_def)








lemma search_output_found:
  "search_output matcher q pat = (Inr (Some m), q') \<Longrightarrow>
     \<exists>pre line t. q = pre @ line # q' \<and> line \<noteq> [] \<and> utf8_decode line = Some t
        \<and> matcher pat t = Some m"
proof (induction q)
  case Nil
  then show ?case by simp
next
  case (Cons l q)
  show ?case
  proof (cases "search_output matcher (l # q) pat = search_output matcher q pat")
    case True
    with Cons obtain pre line t where
      "q = pre @ line # q'" "line \<noteq> []" "utf8_decode line = Some t" "matcher pat t = Some m"
      by auto
    then have "l # q = (l # pre) @ line # q' \<and> line \<noteq> [] \<and> utf8_decode line = Some t
        \<and> matcher pat t = Some m" by simp
    then show ?thesis by blast
  next
    case False
    with Cons.prems have "l \<noteq> [] \<and> (\<exists>t. utf8_decode l = Some t \<and> matcher pat t = Some m) \<and> q' = q"
      by (auto split: if_splits option.splits)
    then have "\<exists>t. l # q = [] @ l # q' \<and> l \<noteq> [] \<and> utf8_decode l = Some t \<and> matcher pat t = Some m"
      by auto
    then show ?thesis by blast
  qed
qed

lemma re_match_iff: "re_match r t \<noteq> None \<longleftrightarrow> (\<exists>n. matches r (take n t))"
  by (simp add: re_match_def match_prefix_iff)

lemma re_search_iff: "re_search r t \<noteq> None \<longleftrightarrow> (\<exists>i. match_prefix r (drop i t))"
proof (induction t)
  case Nil
  then show ?case by (simp add: re_match_def)
next
  case (Cons c t)
  have "(\<exists>i. match_prefix r (drop i (c # t))) \<longleftrightarrow>
          match_prefix r (c # t) \<or> (\<exists>i. match_prefix r (drop i t))"
  proof
    assume "\<exists>i. match_prefix r (drop i (c # t))"
    then obtain i where i: "match_prefix r (drop i (c # t))" ..
    then show "match_prefix r (c # t) \<or> (\<exists>i. match_prefix r (drop i t))"
      by (cases i) auto
  next
    assume "match_prefix r (c # t) \<or> (\<exists>i. match_prefix r (drop i t))"
    then show "\<exists>i. match_prefix r (drop i (c # t))"
    proof
      assume "match_prefix r (c # t)"
      then have "match_prefix r (drop 0 (c # t))" by simp
      then show ?thesis ..
    next
      assume "\<exists>i. match_prefix r (drop i t)"
      then obtain i where "match_prefix r (drop i t)" ..
      then have "match_prefix r (drop (Suc i) (c # t))" by simp
      then show ?thesis ..
    qed
  qed
  moreover have "re_search r (c # t) \<noteq> None \<longleftrightarrow>
      match_prefix r (c # t) \<or> re_search r t \<noteq> None"
    by simp
  ultimately show ?case using Cons.IH by blast
qed

text \<open>
  C10. \<open>search_output\<close> reports a match only for a queued line whose text the
  pattern matches from its first character on, that is, some prefix of the text
  matches the pattern, which is what \<open>re_match\<close> tests; \<open>re_search\<close> would accept a
  match starting at any position. So when no queued line is matched at its start,
  \<open>search_output\<close> returns \<open>None\<close>, wherever else in the lines the pattern occurs,
  and the lines have all left the queue.
\<close>

theorem search_output_anchored:
  "(search_output re_match q r = (Inr (Some mo), q') \<longrightarrow>
      (\<exists>pre line. q = pre @ line # q' \<and> utf8_decode line = Some (m_string mo)
         \<and> (\<exists>n. matches r (take n (m_string mo)))))
 \<and> ((\<forall>l \<in> set q. l = [] \<or> (\<exists>u. utf8_decode l = Some u \<and> \<not> (\<exists>n. matches r (take n u)))) \<longrightarrow>
      search_output re_match q r = (Inr None, []))
 \<and> (re_match r t \<noteq> None \<longleftrightarrow> (\<exists>n. matches r (take n t)))
 \<and> (re_search r t \<noteq> None \<longleftrightarrow> (\<exists>i n. matches r (take n (drop i t))))"
proof (intro conjI impI)
  assume "search_output re_match q r = (Inr (Some mo), q')"
  from search_output_found [OF this] obtain pre line u where
    f: "q = pre @ line # q'" "utf8_decode line = Some u" "re_match r u = Some mo"
    by blast
  from f(3) have mp: "match_prefix r u" and u: "m_string mo = u"
    by (cases "match_prefix r u"; auto simp: re_match_def)+
  from mp have "\<exists>n. matches r (take n u)" by (simp add: match_prefix_iff)
  with f(1,2) u
  show "\<exists>pre line. q = pre @ line # q' \<and> utf8_decode line = Some (m_string mo)
         \<and> (\<exists>n. matches r (take n (m_string mo)))"
    by blast
next
  assume h: "\<forall>l \<in> set q. l = [] \<or> (\<exists>u. utf8_decode l = Some u \<and> \<not> (\<exists>n. matches r (take n u)))"
  have "\<forall>l \<in> set q. unmatched re_match r l"
  proof
    fix l assume "l \<in> set q"
    with h have "l = [] \<or> (\<exists>u. utf8_decode l = Some u \<and> \<not> (\<exists>n. matches r (take n u)))"
      by blast
    then show "unmatched re_match r l"
      unfolding unmatched_def re_match_def match_prefix_iff by auto
  qed
  then have "search_output re_match (q @ []) r = search_output re_match [] r"
    by (rule search_output_skip)
  then show "search_output re_match q r = (Inr None, [])" by simp
next
  show "re_match r t \<noteq> None \<longleftrightarrow> (\<exists>n. matches r (take n t))"
    by (rule re_match_iff)
next
  show "re_search r t \<noteq> None \<longleftrightarrow> (\<exists>i n. matches r (take n (drop i t)))"
    by (simp only: re_search_iff match_prefix_iff)
qed


theorem search_output_anchored_witness:
  "re_search (Chr 98) [97, 98, 10] = Some \<lparr>m_string = [97, 98, 10]\<rparr>
 \<and> re_match (Chr 98) [97, 98, 10] = None
 \<and> search_output re_match [[97, 98, 10]] (Chr 98) = (Inr None, [])
 \<and> search_output re_match [[98, 10]] (Chr 98) = (Inr (Some \<lparr>m_string = [98, 10]\<rparr>), [])"
proof -
  have s: "re_search (Chr 98) [97, 98, 10] = Some \<lparr>m_string = [97, 98, 10]\<rparr>"
    and m: "re_match (Chr 98) [97, 98, 10] = None"
    and f: "search_output re_match [[98, 10]] (Chr 98)
              = (Inr (Some \<lparr>m_string = [98, 10]\<rparr>), [])"
    by (simp_all add: re_match_def)
  have d: "utf8_decode [97, 98, 10] = Some [97, 98, 10]" by simp
  have n: "\<not> (\<exists>n. matches (Chr 98) (take n [97, 98, 10]))"
    using search_output_anchored [where r = "Chr 98" and t = "[97, 98, 10]"] m by blast
  have "\<forall>l \<in> set [[97, 98, 10 :: 8 word]].
      l = [] \<or> (\<exists>u. utf8_decode l = Some u \<and> \<not> (\<exists>n. matches (Chr 98) (take n u)))"
    using d n by simp
  with search_output_anchored [where q = "[[97, 98, 10]]" and r = "Chr 98"]
  have "search_output re_match [[97, 98, 10]] (Chr 98) = (Inr None, [])" by blast
  with s m f show ?thesis by blast
qed

end
